theory Spec2Isabelle
  imports Complex_Main
begin

section \<open>FlowPay: the orchestration core\<close>

text \<open>
  A shallow embedding of the FlowPay backend (\<^verbatim>\<open>src/backend/app\<close>): the ledger
  gateway (\<^verbatim>\<open>services/nessie.py\<close>), the Collect, Pool and FX Pool handlers
  (\<^verbatim>\<open>api/collect.py\<close>, \<^verbatim>\<open>api/pool.py\<close>, \<^verbatim>\<open>api/fxpool.py\<close>), the rate lock
  (\<^verbatim>\<open>services/fx.py\<close>) and the idempotency middleware
  (\<^verbatim>\<open>middleware/idempotency.py\<close>).

  Conventions of the embedding.
  \<^item> The in-memory dictionaries (\<^verbatim>\<open>fake_collect_db\<close>, \<^verbatim>\<open>fake_pool_db\<close>, ...) are maps
    that a handler takes and returns updated; a pydantic object or dict stored in one
    is a record, and mutating it in place is storing the updated record under its id.
  \<^item> Status fields are strings, as in the source.
  \<^item> A \<^verbatim>\<open>datetime\<close> is an integer number of microseconds; every call of
    \<^verbatim>\<open>datetime.now\<close> is an argument of the handler that makes it.
  \<^item> A raised \<^verbatim>\<open>HTTPException\<close> is the \<open>Inl\<close> branch of the handler's result.
    A handler returns its result together with the stores as it leaves them, since
    some handlers mutate an object before they raise.
  \<^item> The outside world (the Nessie ledger, the webhook subscribers) is the record
    \<open>world\<close>: the transfers attempted so far, the answer the ledger gives to the
    n-th attempt, and the events dispatched so far.
\<close>

section \<open>The model\<close>

subsection \<open>The ledger gateway (services/nessie.py)\<close>

type_synonym datetime = int

record transfer_req =
  t_payer_account_id :: string
  t_payee_account_id :: string
  t_amount :: int
  t_description :: string

record world =
  sent :: "transfer_req list"
  reply :: "nat \<Rightarrow> string option"
  events :: "string list"

text \<open>
  \<^verbatim>\<open>transfer\<close> posts the transfer and returns the id the ledger created, or raises
  (\<^verbatim>\<open>raise_for_status\<close>, a network error). The n-th attempt is answered by
  \<open>reply w n\<close>, \<open>None\<close> standing for the exception; the attempt is logged either way.
\<close>

definition transfer :: "transfer_req \<Rightarrow> world \<Rightarrow> string option \<times> world" where
  "transfer r w = (reply w (length (sent w)), w\<lparr>sent := sent w @ [r]\<rparr>)"

text \<open>
  What the ledger answers to \<^verbatim>\<open>GET /accounts/{id}\<close>: the request fails
  (\<open>Unreachable\<close>: any exception inside the \<^verbatim>\<open>try\<close>), or an account object
  arrives whose \<^verbatim>\<open>balance\<close> field may be absent.
\<close>

datatype upstream = Unreachable | Account "int option"

definition get_balance :: "upstream \<Rightarrow> int" where
  "get_balance u =
     (case u of
        Unreachable \<Rightarrow> 999999
      | Account b \<Rightarrow>
          (let reported = (case b of None \<Rightarrow> 0 | Some x \<Rightarrow> x)
           in if reported > 0 then reported else 999999))"

text \<open>
  \<^verbatim>\<open>dispatch_event\<close> (api/webhook.py) posts the event to the subscribers and
  swallows every delivery failure; the embedding records the event type.
\<close>

definition dispatch_event :: "string \<Rightarrow> world \<Rightarrow> world" where
  "dispatch_event event_type w = w\<lparr>events := events w @ [event_type]\<rparr>"

datatype http_exception = HTTPException (status_code: int) (detail: string) | KeyError string

text \<open>
  Where the source's \<^verbatim>\<open>detail\<close> is a dictionary \<^verbatim>\<open>{"error": {"code": c, ...}}\<close>,
  the embedding keeps its \<^verbatim>\<open>code\<close>. \<open>KeyError k\<close> is Python's exception for a
  dictionary read at a missing key \<open>k\<close>; no handler catches it.
\<close>

subsection \<open>Collect (api/collect.py)\<close>

record collect =
  collect_id :: string
  collect_status :: string
  collect_amount :: int
  collect_payee_account_id :: string
  collect_payer_account_id :: string
  nessie_transfer_id :: "string option"
  expires_at :: datetime
  approved_at :: "datetime option"
  declined_at :: "datetime option"

type_synonym collect_db = "string \<rightharpoonup> collect"

text \<open>
  \<open>approve\<close> is the body of \<^verbatim>\<open>approve_collect\<close> after the lookup. \<open>now\<close> is the
  clock read by the expiry check, \<open>bal\<close> the ledger's answer to the balance read,
  \<open>now'\<close> the clock read for \<^verbatim>\<open>approved_at\<close>.
\<close>

definition approve ::
  "collect \<Rightarrow> datetime \<Rightarrow> upstream \<Rightarrow> datetime \<Rightarrow> world
     \<Rightarrow> (http_exception + collect) \<times> collect \<times> world" where
  "approve c now bal now' w =
     (if collect_status c \<noteq> ''pending'' then
        (Inl (HTTPException 400 (''Cannot approve collect in '' @ collect_status c @ '' status'')),
         c, w)
      else if now > expires_at c then
        (let c1 = c\<lparr>collect_status := ''expired''\<rparr>
         in (Inl (HTTPException 410 ''collect_expired''), c1, dispatch_event ''collect.expired'' w))
      else
        (let balance = get_balance bal in
         if balance < collect_amount c then
           (Inl (HTTPException 402 ''insufficient_funds''), c, w)
         else
           (case transfer \<lparr>t_payer_account_id = collect_payer_account_id c,
                           t_payee_account_id = collect_payee_account_id c,
                           t_amount = collect_amount c,
                           t_description = ''FlowPay collect '' @ collect_id c\<rparr> w of
              (None, w1) \<Rightarrow> (Inl (HTTPException 500 ''Nessie transfer failed''), c, w1)
            | (Some transfer_id, w1) \<Rightarrow>
                (let c1 = c\<lparr>collect_status := ''approved'',
                              approved_at := Some now',
                              nessie_transfer_id := Some transfer_id\<rparr>
                 in (Inr c1, c1, dispatch_event ''collect.approved'' w1)))))"

definition approve_collect ::
  "collect_db \<Rightarrow> world \<Rightarrow> string \<Rightarrow> datetime \<Rightarrow> upstream \<Rightarrow> datetime
     \<Rightarrow> (http_exception + collect) \<times> collect_db \<times> world" where
  "approve_collect db w cid now bal now' =
     (case db cid of
        None \<Rightarrow> (Inl (HTTPException 404 ''Collect request not found''), db, w)
      | Some c \<Rightarrow>
          (case approve c now bal now' w of
             (res, c1, w1) \<Rightarrow> (res, db(cid \<mapsto> c1), w1)))"

definition decline ::
  "collect \<Rightarrow> datetime \<Rightarrow> world \<Rightarrow> (http_exception + collect) \<times> collect \<times> world" where
  "decline c now w =
     (if collect_status c \<noteq> ''pending'' then
        (Inl (HTTPException 400 (''Cannot decline collect in '' @ collect_status c @ '' status'')),
         c, w)
      else
        (let c1 = c\<lparr>collect_status := ''declined'', declined_at := Some now\<rparr>
         in (Inr c1, c1, dispatch_event ''collect.declined'' w)))"

definition decline_collect ::
  "collect_db \<Rightarrow> world \<Rightarrow> string \<Rightarrow> datetime
     \<Rightarrow> (http_exception + collect) \<times> collect_db \<times> world" where
  "decline_collect db w cid now =
     (case db cid of
        None \<Rightarrow> (Inl (HTTPException 404 ''Collect request not found''), db, w)
      | Some c \<Rightarrow>
          (case decline c now w of
             (res, c1, w1) \<Rightarrow> (res, db(cid \<mapsto> c1), w1)))"

subsection \<open>Pool (api/pool.py)\<close>

record pool =
  pool_id :: string
  pool_status :: string
  goal_amount :: int
  collected_amount :: int
  organizer_account_id :: string
  payee_account_id :: string
  participant_count :: int
  contributions_count :: int
  deadline :: datetime
  funded_at :: "datetime option"
  nessie_transfer_ids :: "string list"
  refund_ids :: "string list option"

record contribution =
  c_payer_account_id :: string
  c_amount :: int
  c_nessie_transfer_id :: string

record pool_create_request =
  req_goal_amount :: int
  req_organizer_account_id :: string
  req_payee_account_id :: string
  req_deadline :: datetime

record pool_contribute_request =
  req_payer_account_id :: string
  req_amount :: int

text \<open>The two dictionaries of the module: \<^verbatim>\<open>fake_pool_db\<close> and \<^verbatim>\<open>fake_contributions_db\<close>.\<close>

record pool_stores =
  fake_pool_db :: "string \<rightharpoonup> pool"
  fake_contributions_db :: "string \<rightharpoonup> contribution list"

text \<open>
  \<^verbatim>\<open>create_pool\<close>: \<open>pid\<close> is the id drawn from \<^verbatim>\<open>uuid4\<close>. The request schema puts
  no bound on \<^verbatim>\<open>goal_amount\<close>.
\<close>

definition create_pool :: "pool_stores \<Rightarrow> string \<Rightarrow> pool_create_request \<Rightarrow> pool \<times> pool_stores" where
  "create_pool st pid request =
     (let p = \<lparr>pool_id = pid, pool_status = ''collecting'',
                goal_amount = req_goal_amount request, collected_amount = 0,
                organizer_account_id = req_organizer_account_id request,
                payee_account_id = req_payee_account_id request,
                participant_count = 0, contributions_count = 0,
                deadline = req_deadline request, funded_at = None,
                nessie_transfer_ids = [], refund_ids = None\<rparr>
      in (p, st\<lparr>fake_pool_db := (fake_pool_db st)(pid \<mapsto> p),
                fake_contributions_db := (fake_contributions_db st)(pid \<mapsto> [])\<rparr>))"

text \<open>
  \<open>contribute\<close> is the body of \<^verbatim>\<open>contribute_to_pool\<close> after the lookup, on the path's
  \<open>pid\<close>, the pool and \<open>cso\<close>, what \<^verbatim>\<open>fake_contributions_db\<close> holds under the pool's id (\<open>None\<close>:
  no key, and the read raises \<^verbatim>\<open>KeyError\<close>). \<open>now\<close> is the clock read by the deadline
  check, \<open>bal\<close> the ledger's answer to the balance read, \<open>now'\<close> the clock read for
  \<^verbatim>\<open>funded_at\<close>. The only status test is the one for \<open>funded\<close>.
\<close>

definition contribute ::
  "string \<Rightarrow> pool \<Rightarrow> contribution list option \<Rightarrow> pool_contribute_request \<Rightarrow> datetime \<Rightarrow> upstream
     \<Rightarrow> datetime \<Rightarrow> world
     \<Rightarrow> (http_exception + pool) \<times> pool \<times> contribution list option \<times> world" where
  "contribute pid p cso request now bal now' w =
     (if pool_status p = ''funded'' then
        (Inl (HTTPException 409 (''Pool '' @ pid @
           '' reached its goal and has been settled. No further contributions accepted.'')),
         p, cso, w)
      else if now > deadline p then
        (Inl (HTTPException 422 ''pool_expired''), p, cso, w)
      else
        (let balance = get_balance bal in
         if balance < req_amount request then
           (Inl (HTTPException 402 ''insufficient_funds''), p, cso, w)
         else
           (case transfer \<lparr>t_payer_account_id = req_payer_account_id request,
                           t_payee_account_id = organizer_account_id p,
                           t_amount = req_amount request,
                           t_description = ''FlowPay pool contribution '' @ pool_id p\<rparr> w of
              (None, w1) \<Rightarrow> (Inl (HTTPException 500 ''Nessie transfer failed''), p, cso, w1)
            | (Some transfer_id, w1) \<Rightarrow>
                (case cso of
                   None \<Rightarrow> (Inl (KeyError pid), p, cso, w1)
                 | Some cs \<Rightarrow>
                (let cs1 = cs @ [\<lparr>c_payer_account_id = req_payer_account_id request,
                                   c_amount = req_amount request,
                                   c_nessie_transfer_id = transfer_id\<rparr>];
                     p1 = p\<lparr>collected_amount := collected_amount p + req_amount request,
                            participant_count := int (length (remdups (map c_payer_account_id cs1))),
                            contributions_count := contributions_count p + 1\<rparr>
                 in if collected_amount p1 \<ge> goal_amount p1 then
                      (let p2 = p1\<lparr>pool_status := ''funded'', funded_at := Some now'\<rparr> in
                       case transfer \<lparr>t_payer_account_id = organizer_account_id p2,
                                       t_payee_account_id = payee_account_id p2,
                                       t_amount = collected_amount p2,
                                       t_description = ''FlowPay pool settlement '' @ pool_id p2\<rparr> w1 of
                         (Some settle_txn, w2) \<Rightarrow>
                           (let p3 = p2\<lparr>nessie_transfer_ids := nessie_transfer_ids p2 @ [settle_txn]\<rparr>
                            in (Inr p3, p3, Some cs1, dispatch_event ''pool.goal_reached'' w2))
                       | (None, w2) \<Rightarrow>
                           (Inr p2, p2, Some cs1, dispatch_event ''pool.goal_reached'' w2))
                    else (Inr p1, p1, Some cs1,
                          dispatch_event ''pool.contribution_received'' w1))))))"

definition contribute_to_pool ::
  "pool_stores \<Rightarrow> world \<Rightarrow> string \<Rightarrow> pool_contribute_request \<Rightarrow> datetime \<Rightarrow> upstream \<Rightarrow> datetime
     \<Rightarrow> (http_exception + pool) \<times> pool_stores \<times> world" where
  "contribute_to_pool st w pid request now bal now' =
     (case fake_pool_db st pid of
        None \<Rightarrow> (Inl (HTTPException 404 ''Pool not found''), st, w)
      | Some p \<Rightarrow>
          (case contribute pid p (fake_contributions_db st pid) request now bal now' w of
             (res, p1, cso1, w1) \<Rightarrow>
               (res,
                st\<lparr>fake_pool_db := (fake_pool_db st)(pid \<mapsto> p1),
                   fake_contributions_db := (fake_contributions_db st)(pid := cso1)\<rparr>,
                w1)))"

text \<open>
  The refund loop of \<^verbatim>\<open>cancel_pool\<close>: one reverse transfer per contribution, in
  order; a failed one appends \<^verbatim>\<open>failed_ref_<hex>\<close> and the loop goes on. \<open>hex i\<close> is
  the \<^verbatim>\<open>uuid4\<close> digits drawn at position \<open>i\<close> of the loop.
\<close>

fun refund_loop ::
  "pool \<Rightarrow> (nat \<Rightarrow> string) \<Rightarrow> nat \<Rightarrow> contribution list \<Rightarrow> string list \<Rightarrow> world
     \<Rightarrow> string list \<times> world" where
  "refund_loop p hex i [] ids w = (ids, w)"
| "refund_loop p hex i (c # cs) ids w =
     (case transfer \<lparr>t_payer_account_id = organizer_account_id p,
                     t_payee_account_id = c_payer_account_id c,
                     t_amount = c_amount c,
                     t_description = ''FlowPay refund for pool '' @ pool_id p\<rparr> w of
        (Some refund_txn, w1) \<Rightarrow> refund_loop p hex (Suc i) cs (ids @ [refund_txn]) w1
      | (None, w1) \<Rightarrow> refund_loop p hex (Suc i) cs (ids @ [''failed_ref_'' @ hex i]) w1)"

definition cancel ::
  "string \<Rightarrow> pool \<Rightarrow> contribution list option \<Rightarrow> (nat \<Rightarrow> string) \<Rightarrow> world
     \<Rightarrow> (http_exception + pool) \<times> pool \<times> world" where
  "cancel pid p cso hex w =
     (if pool_status p \<noteq> ''collecting'' then
        (Inl (HTTPException 400 (''Cannot cancel pool in '' @ pool_status p @ '' status'')), p, w)
      else
        (let p1 = p\<lparr>pool_status := ''cancelled'', refund_ids := Some []\<rparr> in
         case cso of
           None \<Rightarrow> (Inl (KeyError pid), p1, w)
         | Some cs \<Rightarrow>
             (case refund_loop p1 hex 0 cs [] w of
                (ids, w1) \<Rightarrow>
                  (let p2 = p1\<lparr>refund_ids := Some ids\<rparr>
                   in (Inr p2, p2, dispatch_event ''pool.cancelled'' w1)))))"

definition cancel_pool ::
  "pool_stores \<Rightarrow> world \<Rightarrow> string \<Rightarrow> (nat \<Rightarrow> string)
     \<Rightarrow> (http_exception + pool) \<times> pool_stores \<times> world" where
  "cancel_pool st w pid hex =
     (case fake_pool_db st pid of
        None \<Rightarrow> (Inl (HTTPException 404 ''Pool not found''), st, w)
      | Some p \<Rightarrow>
          (case cancel pid p (fake_contributions_db st pid) hex w of
             (res, p1, w1) \<Rightarrow> (res, st\<lparr>fake_pool_db := (fake_pool_db st)(pid \<mapsto> p1)\<rparr>, w1)))"

text \<open>A run of commands against the stores, each with the inputs it reads.\<close>

datatype pool_command =
  Contribute string pool_contribute_request datetime upstream datetime
| Cancel string "nat \<Rightarrow> string"

fun pool_step :: "pool_command \<Rightarrow> pool_stores \<times> world \<Rightarrow> pool_stores \<times> world" where
  "pool_step (Contribute pid request now bal now') (st, w) =
     snd (contribute_to_pool st w pid request now bal now')"
| "pool_step (Cancel pid hex) (st, w) = snd (cancel_pool st w pid hex)"

definition pool_run :: "pool_command list \<Rightarrow> pool_stores \<times> world \<Rightarrow> pool_stores \<times> world" where
  "pool_run cmds s = foldl (\<lambda>s c. pool_step c s) s cmds"

subsection \<open>FX Pool: the refund path (api/fxpool.py)\<close>

text \<open>
  The pool dictionary and the contribution dictionary, with the fields the refund
  path, \<^verbatim>\<open>cancel_fxpool\<close> and \<^verbatim>\<open>simulate_rate_drift\<close> read or write. The
  floating-point fields (\<^verbatim>\<open>max_rate_drift_pct\<close>, \<^verbatim>\<open>usd_rate\<close>) and the
  descriptive ones are left out: these three functions never touch them.
\<close>

record fxpool =
  fxpool_id :: string
  fxpool_status :: string
  goal_amount_usd :: int
  collected_usd :: int
  fx_organizer_account_id :: string
  fx_payee_account_id :: string
  fx_deadline :: datetime
  fx_contributions_count :: int
  fx_funded_at :: "datetime option"
  nessie_settlement_id :: "string option"
  currencies_collected :: "string list"

record fx_contribution =
  fxc_id :: string
  fxc_payer_account_id :: string
  fxc_currency :: string
  amount_local :: int
  amount_usd :: int
  rate_lock_id :: string
  fxc_nessie_transfer_id :: string

text \<open>
  An entry of the \<^verbatim>\<open>refunds\<close> list: \<^verbatim>\<open>{payer, currency, amount_refunded, nessie_id}\<close>
  for a transfer that went through, \<^verbatim>\<open>{payer, "error": "refund failed"}\<close> otherwise.
\<close>

datatype refund =
  Refunded (payer: string) (currency: string) (amount_refunded: int) (nessie_id: string)
| RefundFailed (payer: string)

record fx_stores =
  fxpool_db :: "string \<rightharpoonup> fxpool"
  fxpool_contributions_db :: "string \<rightharpoonup> fx_contribution list"

record fx_refund_response =
  resp_pool :: fxpool
  resp_refunds :: "refund list"
  resp_reason :: string

text \<open>Python's \<^verbatim>\<open>sub in s\<close> on strings.\<close>

fun str_contains :: "string \<Rightarrow> string \<Rightarrow> bool" where
  "str_contains sub [] = (sub = [])"
| "str_contains sub (x # xs) = (take (length sub) (x # xs) = sub \<or> str_contains sub xs)"

definition refund_request :: "fxpool \<Rightarrow> string \<Rightarrow> string \<Rightarrow> fx_contribution \<Rightarrow> transfer_req" where
  "refund_request pool pid reason contrib =
     \<lparr>t_payer_account_id = fx_organizer_account_id pool,
      t_payee_account_id = fxc_payer_account_id contrib,
      t_amount = amount_local contrib,
      t_description = ''FlowBridge FX Pool '' @ pid @ '' refund ('' @ reason @ '')''\<rparr>"

definition refund_entry :: "string option \<Rightarrow> fx_contribution \<Rightarrow> refund" where
  "refund_entry r contrib =
     (case r of
        Some ref_txn \<Rightarrow>
          Refunded (fxc_payer_account_id contrib) (fxc_currency contrib) (amount_local contrib) ref_txn
      | None \<Rightarrow> RefundFailed (fxc_payer_account_id contrib))"

text \<open>The loop of \<^verbatim>\<open>_trigger_fxpool_refund\<close> over the pool's contributions.\<close>

fun refund_contributions ::
  "fxpool \<Rightarrow> string \<Rightarrow> string \<Rightarrow> fx_contribution list \<Rightarrow> refund list \<Rightarrow> world
     \<Rightarrow> refund list \<times> world" where
  "refund_contributions pool pid reason [] refunds w = (refunds, w)"
| "refund_contributions pool pid reason (contrib # rest) refunds w =
     (case transfer (refund_request pool pid reason contrib) w of
        (r, w1) \<Rightarrow>
          refund_contributions pool pid reason rest (refunds @ [refund_entry r contrib]) w1)"

text \<open>
  \<^verbatim>\<open>_trigger_fxpool_refund\<close>. It reads \<^verbatim>\<open>fxpool_db[pool_id]\<close> (a \<^verbatim>\<open>KeyError\<close> when
  absent; both callers look the pool up first), sets the status whatever it was, and
  reads the contributions with \<^verbatim>\<open>.get(pool_id, [])\<close>.
\<close>

definition trigger_fxpool_refund ::
  "fx_stores \<Rightarrow> world \<Rightarrow> string \<Rightarrow> string
     \<Rightarrow> (http_exception + fx_refund_response) \<times> fx_stores \<times> world" where
  "trigger_fxpool_refund st w pid reason =
     (case fxpool_db st pid of
        None \<Rightarrow> (Inl (KeyError pid), st, w)
      | Some pool0 \<Rightarrow>
          (let pool = pool0\<lparr>fxpool_status :=
                        (if reason = ''organizer_cancelled'' then ''cancelled''
                         else ''drift_refunded'')\<rparr>;
               contribs = (case fxpool_contributions_db st pid of None \<Rightarrow> [] | Some cs \<Rightarrow> cs)
           in case refund_contributions pool pid reason contribs [] w of
                (refunds, w1) \<Rightarrow>
                  (let event = (if str_contains ''drift'' reason then ''fxpool.rate_drifted''
                                else ''fxpool.cancelled'')
                   in (Inr \<lparr>resp_pool = pool, resp_refunds = refunds, resp_reason = reason\<rparr>,
                       st\<lparr>fxpool_db := (fxpool_db st)(pid \<mapsto> pool)\<rparr>,
                       dispatch_event event w1))))"

definition simulate_rate_drift ::
  "fx_stores \<Rightarrow> world \<Rightarrow> string \<Rightarrow> (http_exception + fx_refund_response) \<times> fx_stores \<times> world" where
  "simulate_rate_drift st w pid =
     (case fxpool_db st pid of
        None \<Rightarrow> (Inl (HTTPException 404 ''FX Pool not found''), st, w)
      | Some pool \<Rightarrow> trigger_fxpool_refund st w pid ''rate_drift_simulated'')"

definition cancel_fxpool ::
  "fx_stores \<Rightarrow> world \<Rightarrow> string \<Rightarrow> (http_exception + fx_refund_response) \<times> fx_stores \<times> world" where
  "cancel_fxpool st w pid =
     (case fxpool_db st pid of
        None \<Rightarrow> (Inl (HTTPException 404 ''FX Pool not found''), st, w)
      | Some pool \<Rightarrow> trigger_fxpool_refund st w pid ''organizer_cancelled'')"

subsection \<open>The idempotency middleware (middleware/idempotency.py)\<close>

text \<open>
  A request as the middleware reads it: the HTTP method, \<^verbatim>\<open>request.url.path\<close>, and what
  \<^verbatim>\<open>headers.get("Idempotency-Key") or headers.get("idempotency-key")\<close> evaluates to
  (header names are case-insensitive, so both reads see the same header). A response
  is a status code, the chunks of its body iterator and its headers.
\<close>

record request =
  http_method :: string
  url_path :: string
  idempotency_key_header :: "string option"

record response =
  r_status_code :: int
  r_body_iterator :: "string list"
  r_headers :: "string \<rightharpoonup> string"

record cached_response =
  cached_body :: string
  cached_status_code :: int

type_synonym idempotency_store = "string \<times> string \<rightharpoonup> cached_response"

text \<open>
  \<open>call_next\<close> is the rest of the application: it takes the application's state
  \<open>app\<close> and the request and returns the state it leaves together with the
  response, or with the exception that escapes it (\<open>Inl\<close>). \<open>dispatch\<close> returns the
  response or the exception, the store and the application state.
\<close>

definition dispatch ::
  "('app \<Rightarrow> request \<Rightarrow> ('e + response) \<times> 'app) \<Rightarrow> idempotency_store \<Rightarrow> 'app \<Rightarrow> request
     \<Rightarrow> ('e + response) \<times> idempotency_store \<times> 'app" where
  "dispatch call_next store app req =
     (if http_method req \<noteq> ''POST'' then
        (case call_next app req of (res, app1) \<Rightarrow> (res, store, app1))
      else
        (case idempotency_key_header req of
           None \<Rightarrow> (case call_next app req of (res, app1) \<Rightarrow> (res, store, app1))
         | Some idempotency_key \<Rightarrow>
             if idempotency_key = [] then
               (case call_next app req of (res, app1) \<Rightarrow> (res, store, app1))
             else
               (let cache_key = (idempotency_key, url_path req) in
                case store cache_key of
                  Some cached \<Rightarrow>
                    (Inr \<lparr>r_status_code = cached_status_code cached,
                          r_body_iterator = [cached_body cached],
                          r_headers = [''Content-Type'' \<mapsto> ''application/json'',
                                       ''X-Idempotency-Key'' \<mapsto> idempotency_key,
                                       ''X-Idempotency-Replayed'' \<mapsto> ''true'']\<rparr>,
                     store, app)
                | None \<Rightarrow>
                    (case call_next app req of
                       (Inl e, app1) \<Rightarrow> (Inl e, store, app1)
                     | (Inr response, app1) \<Rightarrow>
                         if 200 \<le> r_status_code response \<and> r_status_code response < 300 then
                           (let body = concat (r_body_iterator response) in
                            (Inr \<lparr>r_status_code = r_status_code response,
                                  r_body_iterator = [body],
                                  r_headers = r_headers response ++
                                      [''X-Idempotency-Key'' \<mapsto> idempotency_key,
                                       ''X-Idempotency-Replayed'' \<mapsto> ''false'']\<rparr>,
                             store(cache_key \<mapsto>
                               \<lparr>cached_body = body, cached_status_code = r_status_code response\<rparr>),
                             app1))
                         else (Inr response, store, app1)))))"

subsection \<open>The rate lock (services/fx.py)\<close>

text \<open>
  \<^verbatim>\<open>lock_rate\<close> computes with Python floats. The embedding does not fix what a float
  is: the type \<open>'f\<close> of floats and the operations \<^verbatim>\<open>lock_rate\<close> applies to them are
  a parameter, so what is proved of \<open>lock_rate\<close> holds for binary64 arithmetic as for
  any other. The operations that can raise return the exception.
  \<^item> \<open>int_truediv a b\<close>: \<^verbatim>\<open>a / b\<close> on two integers (\<open>None\<close>: \<^verbatim>\<open>OverflowError\<close>, the
    quotient is too large for a float);
  \<^item> \<open>float_truediv x y\<close>: \<^verbatim>\<open>x / y\<close> on floats, called with \<open>y\<close> not zero;
  \<^item> \<open>float_mul_int x n\<close>: \<^verbatim>\<open>x * n\<close>, a float by an integer;
  \<^item> \<open>float_to_int x\<close>: \<^verbatim>\<open>int(x)\<close>, truncation toward zero (\<^verbatim>\<open>OverflowError\<close> on an
    infinity, \<^verbatim>\<open>ValueError\<close> on a NaN);
  \<^item> \<open>float_is_zero x\<close>: \<^verbatim>\<open>x == 0\<close>; \<open>float_one\<close>: the literal \<^verbatim>\<open>1.0\<close>.
\<close>

datatype py_error = OverflowError | ValueError







section \<open>Invariants, sample data and one instance of the float operations\<close>

text \<open>
  What follows is not taken from the source: the sample inputs of the closed
  instances, the invariant of the Pool proof, and exact rational arithmetic as one
  instance of the float operations.
\<close>

definition demo_world :: world where
  "demo_world = \<lparr>sent = [], reply = (\<lambda>n. Some ''txn_1''), events = []\<rparr>"

definition demo_collect :: collect where
  "demo_collect =
     \<lparr>collect_id = ''clct_1'', collect_status = ''pending'', collect_amount = 4900,
      collect_payee_account_id = ''acc_payee'', collect_payer_account_id = ''acc_payer'',
      nessie_transfer_id = None, expires_at = 1000, approved_at = None, declined_at = None\<rparr>"

text \<open>
  The invariant of a pool \<open>p\<close> and its contribution list \<open>cso\<close>, for a requested goal
  \<open>g\<close>: the goal is \<open>g\<close>, the list is there, \<open>collected_amount\<close> is the sum of the
  contributions' amounts, and a pool with a recorded contribution that has reached
  the goal is \<open>funded\<close>. \<open>stores_inv\<close> says it of the pool stored under \<open>pid\<close>.
\<close>

definition pool_inv :: "int \<Rightarrow> pool \<Rightarrow> contribution list option \<Rightarrow> bool" where
  "pool_inv g p cso =
     (goal_amount p = g \<and>
      (case cso of
         None \<Rightarrow> False
       | Some cs \<Rightarrow>
           collected_amount p = sum_list (map c_amount cs) \<and>
           (if cs \<noteq> [] \<and> g \<le> collected_amount p then pool_status p = ''funded'' else True)))"

definition stores_inv :: "int \<Rightarrow> string \<Rightarrow> pool_stores \<Rightarrow> bool" where
  "stores_inv g pid st =
     (case fake_pool_db st pid of
        None \<Rightarrow> False
      | Some p \<Rightarrow> pool_inv g p (fake_contributions_db st pid))"

definition empty_stores :: pool_stores where
  "empty_stores = \<lparr>fake_pool_db = Map.empty, fake_contributions_db = Map.empty\<rparr>"

definition demo_request :: "int \<Rightarrow> pool_create_request" where
  "demo_request g =
     \<lparr>req_goal_amount = g, req_organizer_account_id = ''acc_org'',
      req_payee_account_id = ''acc_payee'', req_deadline = 1000\<rparr>"

definition demo_contribution :: "int \<Rightarrow> pool_contribute_request" where
  "demo_contribution a = \<lparr>req_payer_account_id = ''acc_payer'', req_amount = a\<rparr>"

text \<open>A pool with goal 20000 that two contributions of 10000 fund.\<close>

definition demo_run :: "pool_stores \<times> world" where
  "demo_run =
     pool_run
       [Contribute ''pool_1'' (demo_contribution 10000) 5 Unreachable 6,
        Contribute ''pool_1'' (demo_contribution 10000) 7 (Account (Some 0)) 8]
       (snd (create_pool empty_stores ''pool_1'' (demo_request 20000)), demo_world)"

text \<open>A pool with goal 20000, created and then cancelled.\<close>

definition cancelled_pool :: "pool_stores \<times> world" where
  "cancelled_pool =
     pool_run [Cancel ''pool_1'' (\<lambda>i. ''000000'')]
       (snd (create_pool empty_stores ''pool_1'' (demo_request 20000)), demo_world)"

text \<open>
  An FX pool with goal 15000 that holds two contributions worth 14708 and is still
  collecting, and one with goal 14000 that the same two contributions funded.
\<close>

definition collecting_fxpool :: fxpool where
  "collecting_fxpool =
     \<lparr>fxpool_id = ''fxpool_1'', fxpool_status = ''collecting'', goal_amount_usd = 15000,
      collected_usd = 14708, fx_organizer_account_id = ''acc_org'',
      fx_payee_account_id = ''acc_payee'', fx_deadline = 1000, fx_contributions_count = 2,
      fx_funded_at = None, nessie_settlement_id = None,
      currencies_collected = [''inr'', ''eur'']\<rparr>"

definition funded_fxpool :: fxpool where
  "funded_fxpool =
     collecting_fxpool\<lparr>fxpool_status := ''funded'', goal_amount_usd := 14000,
                       fx_funded_at := Some 900, nessie_settlement_id := Some ''txn_s''\<rparr>"

definition demo_fx_contributions :: "fx_contribution list" where
  "demo_fx_contributions =
     [\<lparr>fxc_id = ''fxc_1'', fxc_payer_account_id = ''acc_in'', fxc_currency = ''inr'',
       amount_local = 415000, amount_usd = 4988, rate_lock_id = ''rate_1'',
       fxc_nessie_transfer_id = ''txn_a''\<rparr>,
      \<lparr>fxc_id = ''fxc_2'', fxc_payer_account_id = ''acc_de'', fxc_currency = ''eur'',
       amount_local = 9000, amount_usd = 9720, rate_lock_id = ''rate_2'',
       fxc_nessie_transfer_id = ''txn_b''\<rparr>]"

definition demo_fx_stores :: "fxpool \<Rightarrow> fx_stores" where
  "demo_fx_stores pool =
     \<lparr>fxpool_db = [''fxpool_1'' \<mapsto> pool],
      fxpool_contributions_db = [''fxpool_1'' \<mapsto> demo_fx_contributions]\<rparr>"

text \<open>A ledger that fails the first transfer it is asked for and accepts the rest.\<close>

definition flaky_world :: world where
  "flaky_world =
     \<lparr>sent = [], reply = (\<lambda>n. if n = 0 then None else Some ''txn_r''), events = []\<rparr>"

text \<open>The body of a response as bytes.\<close>

definition body_bytes :: "response \<Rightarrow> string" where
  "body_bytes r = concat (r_body_iterator r)"

text \<open>
  A handler that creates one resource per call: the application state counts the
  resources, and the body names the one just created.
\<close>

definition create_resource :: "nat \<Rightarrow> request \<Rightarrow> (string + response) \<times> nat" where
  "create_resource n req =
     (Inr \<lparr>r_status_code = 201,
           r_body_iterator = [''id=res_'', replicate n (CHR ''i'')],
           r_headers = Map.empty\<rparr>,
      Suc n)"

definition demo_post :: "string option \<Rightarrow> request" where
  "demo_post key = \<lparr>http_method = ''POST'', url_path = ''/v1/collects'', idempotency_key_header = key\<rparr>"


section \<open>Properties\<close>

subsection \<open>Collect: transitions from a state that is not pending\<close>

lemma approve_not_pending:
  "collect_status c \<noteq> ''pending'' \<Longrightarrow>
   approve c now bal now' w =
     (Inl (HTTPException 400 (''Cannot approve collect in '' @ collect_status c @ '' status'')), c, w)"
  by (simp add: approve_def)

lemma decline_not_pending:
  "collect_status c \<noteq> ''pending'' \<Longrightarrow>
   decline c now w =
     (Inl (HTTPException 400 (''Cannot decline collect in '' @ collect_status c @ '' status'')), c, w)"
  by (simp add: decline_def)

lemma approve_Inr:
  assumes "approve c now bal now' w = (Inr c1, c2, w1)"
  shows "c2 = c1 \<and> collect_status c1 = ''approved'' \<and> nessie_transfer_id c1 \<noteq> None"
  using assms
  by (auto simp: approve_def Let_def split: if_splits prod.splits option.splits)

text \<open>
  Claim C7. The spec's \<open>InvalidStateError\<close> is the handlers' HTTP 400
  ``Cannot approve/decline collect in <status> status''. (1) On a stored Collect
  whose status is not \<open>pending\<close>, \<open>approve_collect\<close> and \<open>decline_collect\<close> raise it
  and leave the store and the world (no transfer, no event) as they were. (2) When
  \<open>approve_collect\<close> succeeds, the Collect is \<open>approved\<close> with a transfer id
  recorded, and every further \<open>approve_collect\<close> on it raises the error and changes
  nothing.
\<close>

theorem collect_non_pending_rejected:
  "(db cid = Some c \<and> collect_status c \<noteq> ''pending'' \<longrightarrow>
      approve_collect db w cid now bal now' =
        (Inl (HTTPException 400 (''Cannot approve collect in '' @ collect_status c @ '' status'')),
         db, w)
      \<and> decline_collect db w cid now =
        (Inl (HTTPException 400 (''Cannot decline collect in '' @ collect_status c @ '' status'')),
         db, w))
   \<and> (approve_collect db w cid now bal now' = (Inr c1, db1, w1) \<longrightarrow>
        db1 cid = Some c1 \<and> collect_status c1 = ''approved'' \<and> nessie_transfer_id c1 \<noteq> None
        \<and> (\<forall>t b t'. approve_collect db1 w1 cid t b t' =
              (Inl (HTTPException 400 ''Cannot approve collect in approved status''), db1, w1)))"
proof (intro conjI impI)
  assume a: "db cid = Some c \<and> collect_status c \<noteq> ''pending''"
  then have upd: "db(cid \<mapsto> c) = db" by (simp add: map_upd_triv)
  from a upd show "approve_collect db w cid now bal now' =
        (Inl (HTTPException 400 (''Cannot approve collect in '' @ collect_status c @ '' status'')),
         db, w)"
    by (simp add: approve_collect_def approve_not_pending)
  from a upd show "decline_collect db w cid now =
        (Inl (HTTPException 400 (''Cannot decline collect in '' @ collect_status c @ '' status'')),
         db, w)"
    by (simp add: decline_collect_def decline_not_pending)
next
  assume r: "approve_collect db w cid now bal now' = (Inr c1, db1, w1)"
  then obtain c0 c2 where c0: "db cid = Some c0"
    and ap: "approve c0 now bal now' w = (Inr c1, c2, w1)" and db1: "db1 = db(cid \<mapsto> c2)"
    by (auto simp: approve_collect_def split: option.splits prod.splits)
  from approve_Inr [OF ap] have c2: "c2 = c1" and st: "collect_status c1 = ''approved''"
    and tid: "nessie_transfer_id c1 \<noteq> None" by simp_all
  show "db1 cid = Some c1" using db1 c2 by simp
  show "collect_status c1 = ''approved''" by (rule st)
  show "nessie_transfer_id c1 \<noteq> None" by (rule tid)
  have upd: "db1(cid \<mapsto> c1) = db1" using db1 c2 by simp
  show "\<forall>t b t'. approve_collect db1 w1 cid t b t' =
              (Inl (HTTPException 400 ''Cannot approve collect in approved status''), db1, w1)"
  proof (intro allI)
    fix t b t'
    have "approve c1 t b t' w1 =
       (Inl (HTTPException 400 (''Cannot approve collect in '' @ collect_status c1 @ '' status'')), c1, w1)"
      by (rule approve_not_pending) (simp add: st)
    then show "approve_collect db1 w1 cid t b t' =
              (Inl (HTTPException 400 ''Cannot approve collect in approved status''), db1, w1)"
      using db1 c2 upd by (simp add: approve_collect_def st)
  qed
qed

theorem collect_non_pending_rejected_witness:
  "approve_collect [''clct_1'' \<mapsto> demo_collect\<lparr>collect_status := ''declined''\<rparr>] demo_world
      ''clct_1'' 5 Unreachable 6 =
     (Inl (HTTPException 400 ''Cannot approve collect in declined status''),
      [''clct_1'' \<mapsto> demo_collect\<lparr>collect_status := ''declined''\<rparr>], demo_world)
   \<and> decline_collect [''clct_1'' \<mapsto> demo_collect\<lparr>collect_status := ''declined''\<rparr>] demo_world
      ''clct_1'' 5 =
     (Inl (HTTPException 400 ''Cannot decline collect in declined status''),
      [''clct_1'' \<mapsto> demo_collect\<lparr>collect_status := ''declined''\<rparr>], demo_world)
   \<and> fst (approve_collect [''clct_1'' \<mapsto> demo_collect] demo_world ''clct_1'' 5 (Account (Some 10000)) 6) =
       Inr (demo_collect\<lparr>collect_status := ''approved'', approved_at := Some 6,
                         nessie_transfer_id := Some ''txn_1''\<rparr>)
   \<and> fst (approve_collect
            (fst (snd (approve_collect [''clct_1'' \<mapsto> demo_collect] demo_world ''clct_1'' 5 (Account (Some 10000)) 6)))
            (snd (snd (approve_collect [''clct_1'' \<mapsto> demo_collect] demo_world ''clct_1'' 5 (Account (Some 10000)) 6)))
            ''clct_1'' 7 Unreachable 8) =
       Inl (HTTPException 400 ''Cannot approve collect in approved status'')"
proof -
  let ?db = "[''clct_1'' \<mapsto> demo_collect\<lparr>collect_status := ''declined''\<rparr>]"
  let ?r = "approve_collect [''clct_1'' \<mapsto> demo_collect] demo_world ''clct_1'' 5 (Account (Some 10000)) 6"
  have first: "?db ''clct_1'' = Some (demo_collect\<lparr>collect_status := ''declined''\<rparr>)
      \<and> collect_status (demo_collect\<lparr>collect_status := ''declined''\<rparr>) \<noteq> ''pending''"
    by simp
  have res: "?r = (Inr (demo_collect\<lparr>collect_status := ''approved'', approved_at := Some 6,
                         nessie_transfer_id := Some ''txn_1''\<rparr>), fst (snd ?r), snd (snd ?r))"
    by (simp add: approve_collect_def approve_def demo_collect_def demo_world_def
        get_balance_def transfer_def dispatch_event_def Let_def)
  from collect_non_pending_rejected
         [of ?db "''clct_1''" "demo_collect\<lparr>collect_status := ''declined''\<rparr>" demo_world 5 Unreachable 6]
       first
  have one: "approve_collect ?db demo_world ''clct_1'' 5 Unreachable 6 =
        (Inl (HTTPException 400 (''Cannot approve collect in '' @
           collect_status (demo_collect\<lparr>collect_status := ''declined''\<rparr>) @ '' status'')), ?db, demo_world)
      \<and> decline_collect ?db demo_world ''clct_1'' 5 =
        (Inl (HTTPException 400 (''Cannot decline collect in '' @
           collect_status (demo_collect\<lparr>collect_status := ''declined''\<rparr>) @ '' status'')), ?db, demo_world)"
    by blast
  from collect_non_pending_rejected
         [of "[''clct_1'' \<mapsto> demo_collect]" "''clct_1''" demo_collect demo_world 5 "Account (Some 10000)" 6
             "demo_collect\<lparr>collect_status := ''approved'', approved_at := Some 6,
                         nessie_transfer_id := Some ''txn_1''\<rparr>" "fst (snd ?r)" "snd (snd ?r)"]
       res
  have two: "approve_collect (fst (snd ?r)) (snd (snd ?r)) ''clct_1'' 7 Unreachable 8 =
       (Inl (HTTPException 400 ''Cannot approve collect in approved status''), fst (snd ?r), snd (snd ?r))"
    by blast
  from res have three: "fst ?r = Inr (demo_collect\<lparr>collect_status := ''approved'', approved_at := Some 6,
                         nessie_transfer_id := Some ''txn_1''\<rparr>)"
    by (metis fst_conv)
  from two have four: "fst (approve_collect (fst (snd ?r)) (snd (snd ?r)) ''clct_1'' 7 Unreachable 8) =
       Inl (HTTPException 400 ''Cannot approve collect in approved status'')"
    by simp
  from one have five: "approve_collect ?db demo_world ''clct_1'' 5 Unreachable 6 =
        (Inl (HTTPException 400 ''Cannot approve collect in declined status''), ?db, demo_world)"
    and six: "decline_collect ?db demo_world ''clct_1'' 5 =
        (Inl (HTTPException 400 ''Cannot decline collect in declined status''), ?db, demo_world)"
    by simp_all
  show ?thesis
    by (intro conjI) (rule five, rule six, rule three, rule four)
qed

subsection \<open>Pool: the collected amount and the funded state\<close>

lemma contribute_inv:
  assumes "pool_inv g p cso" and "contribute pid p cso request now bal now' w = (res, p1, cso1, w1)"
  shows "pool_inv g p1 cso1"
  using assms
  by (auto simp: pool_inv_def contribute_def Let_def
           split: if_splits prod.splits option.splits)

lemma cancel_inv:
  assumes "pool_inv g p cso" and "cancel pid p cso hex w = (res, p1, w1)"
  shows "pool_inv g p1 cso"
  using assms
  by (auto simp: pool_inv_def cancel_def Let_def
           split: if_splits prod.splits option.splits)

lemma contribute_to_pool_inv:
  assumes "stores_inv g pid st"
  shows "stores_inv g pid (fst (snd (contribute_to_pool st w pid' request now bal now')))"
proof (cases "fake_pool_db st pid'")
  case None
  then show ?thesis using assms by (simp add: contribute_to_pool_def)
next
  case (Some p')
  obtain res p1 cso1 w1 where
    c: "contribute pid' p' (fake_contributions_db st pid') request now bal now' w = (res, p1, cso1, w1)"
    by (metis prod_cases4)
  show ?thesis
  proof (cases "pid' = pid")
    case True
    with assms Some have "pool_inv g p' (fake_contributions_db st pid')"
      by (simp add: stores_inv_def)
    from contribute_inv [OF this c] show ?thesis
      using Some c True by (simp add: contribute_to_pool_def stores_inv_def)
  next
    case False
    then show ?thesis
      using assms Some c
      by (simp add: contribute_to_pool_def stores_inv_def split: option.splits)
  qed
qed

lemma cancel_pool_inv:
  assumes "stores_inv g pid st"
  shows "stores_inv g pid (fst (snd (cancel_pool st w pid' hex)))"
proof (cases "fake_pool_db st pid'")
  case None
  then show ?thesis using assms by (simp add: cancel_pool_def)
next
  case (Some p')
  obtain res p1 w1 where
    c: "cancel pid' p' (fake_contributions_db st pid') hex w = (res, p1, w1)"
    by (metis prod_cases3)
  show ?thesis
  proof (cases "pid' = pid")
    case True
    with assms Some have "pool_inv g p' (fake_contributions_db st pid')"
      by (simp add: stores_inv_def)
    from cancel_inv [OF this c] show ?thesis
      using Some c True by (simp add: cancel_pool_def stores_inv_def)
  next
    case False
    then show ?thesis
      using assms Some c
      by (simp add: cancel_pool_def stores_inv_def split: option.splits)
  qed
qed

lemma pool_step_inv:
  "stores_inv g pid (fst s) \<Longrightarrow> stores_inv g pid (fst (pool_step c s))"
  by (cases c; cases s) (simp_all add: contribute_to_pool_inv cancel_pool_inv)

lemma pool_run_inv:
  "stores_inv g pid (fst s) \<Longrightarrow> stores_inv g pid (fst (pool_run cmds s))"
  unfolding pool_run_def
  by (induction cmds arbitrary: s) (simp_all add: pool_step_inv)

lemma create_pool_inv:
  "stores_inv (req_goal_amount request) pid (snd (create_pool st pid request))"
  by (simp add: create_pool_def stores_inv_def pool_inv_def Let_def)

lemma contribute_funded:
  "pool_status p = ''funded'' \<Longrightarrow>
   contribute pid p cso request now bal now' w =
     (Inl (HTTPException 409 (''Pool '' @ pid @
        '' reached its goal and has been settled. No further contributions accepted.'')),
      p, cso, w)"
  by (simp add: contribute_def)

lemma contribute_to_pool_funded:
  assumes "fake_pool_db st pid = Some p" and "pool_status p = ''funded''"
  shows "contribute_to_pool st w pid request now bal now' =
     (Inl (HTTPException 409 (''Pool '' @ pid @
        '' reached its goal and has been settled. No further contributions accepted.'')),
      st, w)"
proof -
  have "(fake_pool_db st)(pid \<mapsto> p) = fake_pool_db st"
    using assms(1) by (simp add: map_upd_triv)
  moreover have "(fake_contributions_db st)(pid := fake_contributions_db st pid) = fake_contributions_db st"
    by simp
  ultimately show ?thesis
    using assms by (simp add: contribute_to_pool_def contribute_funded)
qed

text \<open>
  Claim C1, as the code has it. Take a pool as \<open>create_pool\<close> stores it and run any
  commands (contribute and cancel, on this pool or on others, with any clock
  readings, balances and ledger answers). Then the pool and its contribution list
  are still stored, the goal is the one requested, \<open>collected_amount\<close> is the sum
  of the recorded contributions' amounts, a \<open>funded\<close> pool rejects every further
  contribute call with HTTP 409 and leaves the stores and the world as they were,
  and \<open>collected_amount \<ge> goal_amount\<close> implies that the pool is \<open>funded\<close> as soon as
  a contribution has been recorded or the requested goal is positive.
\<close>

theorem pool_collected_invariant:
  "pool_run cmds (snd (create_pool st0 pid request), w0) = (st, w) \<longrightarrow>
     (\<exists>p cs. fake_pool_db st pid = Some p \<and> fake_contributions_db st pid = Some cs
        \<and> goal_amount p = req_goal_amount request
        \<and> collected_amount p = sum_list (map c_amount cs)
        \<and> (goal_amount p \<le> collected_amount p \<and> (cs \<noteq> [] \<or> 0 < req_goal_amount request)
             \<longrightarrow> pool_status p = ''funded'')
        \<and> (pool_status p = ''funded'' \<longrightarrow>
             (\<forall>r now bal now'.
                contribute_to_pool st w pid r now bal now' =
                  (Inl (HTTPException 409 (''Pool '' @ pid @
                     '' reached its goal and has been settled. No further contributions accepted.'')),
                   st, w))))"
proof
  assume run: "pool_run cmds (snd (create_pool st0 pid request), w0) = (st, w)"
  have "stores_inv (req_goal_amount request) pid
          (fst (pool_run cmds (snd (create_pool st0 pid request), w0)))"
    by (rule pool_run_inv) (simp add: create_pool_inv)
  with run have inv: "stores_inv (req_goal_amount request) pid st" by simp
  then obtain p cs where p: "fake_pool_db st pid = Some p"
    and cs: "fake_contributions_db st pid = Some cs"
    and g: "goal_amount p = req_goal_amount request"
    and sum: "collected_amount p = sum_list (map c_amount cs)"
    and fund0: "cs \<noteq> [] \<and> req_goal_amount request \<le> collected_amount p
                 \<longrightarrow> pool_status p = ''funded''"
    by (auto simp: stores_inv_def pool_inv_def split: option.splits if_splits)
  have fund: "goal_amount p \<le> collected_amount p \<and> (cs \<noteq> [] \<or> 0 < req_goal_amount request)
                 \<longrightarrow> pool_status p = ''funded''"
  proof (cases "cs = []")
    case True
    with sum have "collected_amount p = 0" by simp
    with True g show ?thesis by auto
  next
    case False
    with fund0 g show ?thesis by simp
  qed
  have rej: "pool_status p = ''funded'' \<longrightarrow>
             (\<forall>r now bal now'.
                contribute_to_pool st w pid r now bal now' =
                  (Inl (HTTPException 409 (''Pool '' @ pid @
                     '' reached its goal and has been settled. No further contributions accepted.'')),
                   st, w))"
    using contribute_to_pool_funded [OF p] by blast
  from p cs g sum fund rej
  show "\<exists>p cs. fake_pool_db st pid = Some p \<and> fake_contributions_db st pid = Some cs
        \<and> goal_amount p = req_goal_amount request
        \<and> collected_amount p = sum_list (map c_amount cs)
        \<and> (goal_amount p \<le> collected_amount p \<and> (cs \<noteq> [] \<or> 0 < req_goal_amount request)
             \<longrightarrow> pool_status p = ''funded'')
        \<and> (pool_status p = ''funded'' \<longrightarrow>
             (\<forall>r now bal now'.
                contribute_to_pool st w pid r now bal now' =
                  (Inl (HTTPException 409 (''Pool '' @ pid @
                     '' reached its goal and has been settled. No further contributions accepted.'')),
                   st, w)))"
    by auto
qed

lemmas pool_eval =
  contribute_to_pool_def contribute_def cancel_pool_def cancel_def
  create_pool_def empty_stores_def demo_request_def demo_contribution_def demo_world_def
  get_balance_def transfer_def dispatch_event_def Let_def

lemma demo_run_funded:
  "map_option pool_status (fake_pool_db (fst demo_run) ''pool_1'') = Some ''funded''"
  by (simp add: demo_run_def pool_run_def pool_eval)

lemma demo_run_collected:
  "map_option collected_amount (fake_pool_db (fst demo_run) ''pool_1'') = Some 20000"
  by (simp add: demo_run_def pool_run_def pool_eval)

lemma demo_run_contributions:
  "map_option (map c_amount) (fake_contributions_db (fst demo_run) ''pool_1'') = Some [10000, 10000]"
  by (simp add: demo_run_def pool_run_def pool_eval)

theorem pool_collected_invariant_witness:
  "map_option collected_amount (fake_pool_db (fst demo_run) ''pool_1'') = Some 20000
   \<and> map_option (map c_amount) (fake_contributions_db (fst demo_run) ''pool_1'') = Some [10000, 10000]
   \<and> map_option pool_status (fake_pool_db (fst demo_run) ''pool_1'') = Some ''funded''
   \<and> contribute_to_pool (fst demo_run) (snd demo_run) ''pool_1'' (demo_contribution 1) 9 Unreachable 10 =
       (Inl (HTTPException 409
          ''Pool pool_1 reached its goal and has been settled. No further contributions accepted.''),
        fst demo_run, snd demo_run)"
proof -
  have run: "pool_run
       [Contribute ''pool_1'' (demo_contribution 10000) 5 Unreachable 6,
        Contribute ''pool_1'' (demo_contribution 10000) 7 (Account (Some 0)) 8]
       (snd (create_pool empty_stores ''pool_1'' (demo_request 20000)), demo_world)
     = (fst demo_run, snd demo_run)"
    by (simp add: demo_run_def)
  from pool_collected_invariant
         [of "[Contribute ''pool_1'' (demo_contribution 10000) 5 Unreachable 6,
               Contribute ''pool_1'' (demo_contribution 10000) 7 (Account (Some 0)) 8]"
             empty_stores "''pool_1''" "demo_request 20000" demo_world "fst demo_run" "snd demo_run"]
       run
  obtain p cs where p: "fake_pool_db (fst demo_run) ''pool_1'' = Some p"
    and g: "goal_amount p = req_goal_amount (demo_request 20000)"
    and fund: "goal_amount p \<le> collected_amount p
                 \<and> (cs \<noteq> [] \<or> 0 < req_goal_amount (demo_request 20000))
                 \<longrightarrow> pool_status p = ''funded''"
    and rej: "pool_status p = ''funded'' \<longrightarrow>
             (\<forall>r now bal now'.
                contribute_to_pool (fst demo_run) (snd demo_run) ''pool_1'' r now bal now' =
                  (Inl (HTTPException 409 (''Pool '' @ ''pool_1'' @
                     '' reached its goal and has been settled. No further contributions accepted.'')),
                   fst demo_run, snd demo_run))"
    by blast
  from p demo_run_collected have "collected_amount p = 20000" by simp
  with g fund have "pool_status p = ''funded''" by (simp add: demo_request_def)
  with rej have "contribute_to_pool (fst demo_run) (snd demo_run) ''pool_1'' (demo_contribution 1) 9 Unreachable 10 =
       (Inl (HTTPException 409
          ''Pool pool_1 reached its goal and has been settled. No further contributions accepted.''),
        fst demo_run, snd demo_run)"
    by simp
  with demo_run_collected demo_run_contributions demo_run_funded show ?thesis by blast
qed

text \<open>
  The claim as stated fails on a pool created with goal 0: as stored by
  \<open>create_pool\<close> it has \<open>collected_amount = 0 \<ge> goal_amount\<close> and status
  \<open>collecting\<close>, and a contribute call on it is accepted: a contribution is appended
  and \<open>collected_amount\<close> changes.
\<close>

theorem pool_zero_goal_counterexample:
  "(case create_pool empty_stores ''pool_1'' (demo_request 0) of
      (p, st) \<Rightarrow>
        goal_amount p \<le> collected_amount p \<and> pool_status p = ''collecting''
        \<and> pool_status p \<noteq> ''funded''
        \<and> (case contribute_to_pool st demo_world ''pool_1'' (demo_contribution 500) 5 Unreachable 6 of
             (res, st1, w1) \<Rightarrow>
               isl res = False
               \<and> map_option (map c_amount) (fake_contributions_db st1 ''pool_1'') = Some [500]
               \<and> map_option collected_amount (fake_pool_db st1 ''pool_1'') = Some 500))"
  by (simp add: pool_eval)

subsection \<open>Pool: contributing to a cancelled pool\<close>

text \<open>
  Claim C4 at a cancelled pool. A pool with goal 20000 is created and cancelled; a
  contribute call for 500 before the deadline, with the ledger answering, is then
  not rejected: the transfer is sent, the contribution is appended,
  \<open>collected_amount\<close> becomes 500 and the status stays \<open>cancelled\<close>.
\<close>

theorem contribute_cancelled_pool_accepted:
  "map_option pool_status (fake_pool_db (fst cancelled_pool) ''pool_1'') = Some ''cancelled''
   \<and> (case contribute_to_pool (fst cancelled_pool) (snd cancelled_pool) ''pool_1''
             (demo_contribution 500) 5 Unreachable 6 of
        (res, st1, w1) \<Rightarrow>
          isl res = False
          \<and> map_option pool_status (fake_pool_db st1 ''pool_1'') = Some ''cancelled''
          \<and> map_option collected_amount (fake_pool_db st1 ''pool_1'') = Some 500
          \<and> map_option (map c_amount) (fake_contributions_db st1 ''pool_1'') = Some [500]
          \<and> map t_amount (sent w1) = [500])"
  by (simp add: cancelled_pool_def pool_run_def pool_eval)

subsection \<open>The balance read and the insufficient-funds checks\<close>

text \<open>
  Claim C10. \<open>get_balance\<close> returns 999999 when the ledger cannot be read, and also
  when the account arrives with a reported balance \<open>b \<le> 0\<close>. So with such an answer
  the test \<open>balance < amount\<close> is false for every amount up to 999999, and neither
  \<open>approve\<close> (Collect) nor \<open>contribute\<close> (Pool) raises the HTTP 402
  \<open>insufficient_funds\<close> error; both behave as they do when the ledger is unreachable.
\<close>

theorem get_balance_floor:
  "get_balance Unreachable = 999999
   \<and> (b \<le> 0 \<longrightarrow>
        get_balance (Account (Some b)) = 999999
        \<and> (amt \<le> 999999 \<longrightarrow> \<not> get_balance (Account (Some b)) < amt)
        \<and> (collect_amount c \<le> 999999 \<longrightarrow>
             approve c now (Account (Some b)) now' w = approve c now Unreachable now' w
             \<and> fst (approve c now (Account (Some b)) now' w)
                 \<noteq> Inl (HTTPException 402 ''insufficient_funds''))
        \<and> (req_amount r \<le> 999999 \<longrightarrow>
             contribute pid p cso r now (Account (Some b)) now' w =
               contribute pid p cso r now Unreachable now' w
             \<and> fst (contribute pid p cso r now (Account (Some b)) now' w)
                 \<noteq> Inl (HTTPException 402 ''insufficient_funds'')))"
proof (intro conjI impI)
  show "get_balance Unreachable = 999999" by (simp add: get_balance_def)
next
  assume b: "b \<le> 0"
  then show gb: "get_balance (Account (Some b)) = 999999" by (simp add: get_balance_def)
  { assume "amt \<le> 999999"
    then show "\<not> get_balance (Account (Some b)) < amt" using gb by simp }
  have gu: "get_balance Unreachable = 999999" by (simp add: get_balance_def)
  { assume a: "collect_amount c \<le> 999999"
    show "approve c now (Account (Some b)) now' w = approve c now Unreachable now' w"
      by (simp add: approve_def gb gu)
    show "fst (approve c now (Account (Some b)) now' w) \<noteq> Inl (HTTPException 402 ''insufficient_funds'')"
      using a by (auto simp: approve_def gb Let_def split: prod.splits option.splits) }
  { assume a: "req_amount r \<le> 999999"
    show "contribute pid p cso r now (Account (Some b)) now' w =
               contribute pid p cso r now Unreachable now' w"
      by (simp add: contribute_def gb gu)
    show "fst (contribute pid p cso r now (Account (Some b)) now' w)
                 \<noteq> Inl (HTTPException 402 ''insufficient_funds'')"
      using a by (auto simp: contribute_def gb Let_def split: prod.splits option.splits) }
qed

theorem get_balance_floor_witness:
  "get_balance (Account (Some 0)) = 999999
   \<and> \<not> get_balance (Account (Some 0)) < 999999
   \<and> fst (approve (demo_collect\<lparr>collect_amount := 999999\<rparr>) 5 (Account (Some 0)) 6 demo_world)
        \<noteq> Inl (HTTPException 402 ''insufficient_funds'')
   \<and> fst (contribute ''pool_1'' (fst (create_pool empty_stores ''pool_1'' (demo_request 20000)))
             (Some []) (demo_contribution 999999) 5 (Account (Some 0)) 6 demo_world)
        \<noteq> Inl (HTTPException 402 ''insufficient_funds'')"
proof -
  have h1: "(0::int) \<le> 0" and h2: "(999999::int) \<le> 999999"
    and h3: "collect_amount (demo_collect\<lparr>collect_amount := 999999\<rparr>) \<le> 999999"
    and h4: "req_amount (demo_contribution 999999) \<le> 999999"
    by (simp_all add: demo_contribution_def)
  from get_balance_floor
          [of 0 999999 "demo_collect\<lparr>collect_amount := 999999\<rparr>" 5 6 demo_world
              "demo_contribution 999999" "''pool_1''"
              "fst (create_pool empty_stores ''pool_1'' (demo_request 20000))" "Some []"]
       h1 h2 h3 h4
  show ?thesis by blast
qed

subsection \<open>FX Pool: refunds are in the amount contributed\<close>

text \<open>
  The loop in closed form: the contribution at position \<open>i\<close> gets the transfer
  attempt number \<open>length (sent w) + i\<close>, whatever the earlier attempts returned.
\<close>

lemma refund_contributions_eq:
  "refund_contributions pool pid reason cs refunds w =
     (refunds @ map (\<lambda>(n, c). refund_entry (reply w n) c) (enumerate (length (sent w)) cs),
      w\<lparr>sent := sent w @ map (refund_request pool pid reason) cs\<rparr>)"
proof (induction cs arbitrary: refunds w)
  case Nil
  show ?case by simp
next
  case (Cons c cs)
  show ?case
    by (simp add: transfer_def Cons.IH)
qed

lemmas fx_eval =
  trigger_fxpool_refund_def cancel_fxpool_def simulate_rate_drift_def
  refund_request_def refund_entry_def demo_fx_stores_def collecting_fxpool_def funded_fxpool_def
  demo_fx_contributions_def flaky_world_def demo_world_def
  transfer_def dispatch_event_def Let_def

text \<open>
  Claim C2. Whatever the reason the refund path runs for (\<open>rate_drift\<close> from a
  contribute call that met the goal, \<open>organizer_cancelled\<close>, \<open>rate_drift_simulated\<close>)
  and whatever the ledger answers, it sends exactly one transfer per recorded
  contribution, in order, for that contribution's \<open>amount_local\<close>, from the
  organizer account to the contributor; \<open>amount_usd\<close> and FX rates play no part.
  The \<open>i\<close>-th entry of the returned refund list depends only on the ledger's answer
  to the \<open>i\<close>-th of these transfers: a failure is recorded for that contributor and
  the later contributions are still attempted; a success is recorded with the
  contribution's own currency and \<open>amount_local\<close>.
\<close>

theorem fxpool_refund_original_amounts:
  "fxpool_db st pid = Some pool0 \<and> fxpool_contributions_db st pid = Some cs \<longrightarrow>
     (\<exists>resp st1 w1.
        trigger_fxpool_refund st w pid reason = (Inr resp, st1, w1)
        \<and> length (sent w1) = length (sent w) + length cs
        \<and> take (length (sent w)) (sent w1) = sent w
        \<and> map t_amount (drop (length (sent w)) (sent w1)) = map amount_local cs
        \<and> map t_payee_account_id (drop (length (sent w)) (sent w1)) = map fxc_payer_account_id cs
        \<and> map t_payer_account_id (drop (length (sent w)) (sent w1))
             = map (\<lambda>c. fx_organizer_account_id pool0) cs
        \<and> length (resp_refunds resp) = length cs
        \<and> (\<forall>i<length cs.
              resp_refunds resp ! i =
                (case reply w (length (sent w) + i) of
                   None \<Rightarrow> RefundFailed (fxc_payer_account_id (cs ! i))
                 | Some ref_txn \<Rightarrow>
                     Refunded (fxc_payer_account_id (cs ! i)) (fxc_currency (cs ! i))
                       (amount_local (cs ! i)) ref_txn)))"
proof
  assume a: "fxpool_db st pid = Some pool0 \<and> fxpool_contributions_db st pid = Some cs"
  let ?pool = "pool0\<lparr>fxpool_status :=
                 (if reason = ''organizer_cancelled'' then ''cancelled'' else ''drift_refunded'')\<rparr>"
  let ?refunds = "map (\<lambda>(n, c). refund_entry (reply w n) c) (enumerate (length (sent w)) cs)"
  let ?w1 = "w\<lparr>sent := sent w @ map (refund_request ?pool pid reason) cs\<rparr>"
  let ?event = "if str_contains ''drift'' reason then ''fxpool.rate_drifted'' else ''fxpool.cancelled''"
  let ?resp = "\<lparr>resp_pool = ?pool, resp_refunds = ?refunds, resp_reason = reason\<rparr>"
  have loop: "refund_contributions ?pool pid reason cs [] w = (?refunds, ?w1)"
    by (simp add: refund_contributions_eq)
  have res: "trigger_fxpool_refund st w pid reason =
      (Inr ?resp, st\<lparr>fxpool_db := (fxpool_db st)(pid \<mapsto> ?pool)\<rparr>, dispatch_event ?event ?w1)"
    using a by (simp add: trigger_fxpool_refund_def loop Let_def)
  have sent: "sent (dispatch_event ?event ?w1) = sent w @ map (refund_request ?pool pid reason) cs"
    by (simp add: dispatch_event_def)
  have entries: "\<forall>i<length cs.
      ?refunds ! i =
        (case reply w (length (sent w) + i) of
           None \<Rightarrow> RefundFailed (fxc_payer_account_id (cs ! i))
         | Some ref_txn \<Rightarrow>
             Refunded (fxc_payer_account_id (cs ! i)) (fxc_currency (cs ! i))
               (amount_local (cs ! i)) ref_txn)"
    by (simp add: nth_enumerate_eq refund_entry_def)
  show "\<exists>resp st1 w1.
        trigger_fxpool_refund st w pid reason = (Inr resp, st1, w1)
        \<and> length (sent w1) = length (sent w) + length cs
        \<and> take (length (sent w)) (sent w1) = sent w
        \<and> map t_amount (drop (length (sent w)) (sent w1)) = map amount_local cs
        \<and> map t_payee_account_id (drop (length (sent w)) (sent w1)) = map fxc_payer_account_id cs
        \<and> map t_payer_account_id (drop (length (sent w)) (sent w1))
             = map (\<lambda>c. fx_organizer_account_id pool0) cs
        \<and> length (resp_refunds resp) = length cs
        \<and> (\<forall>i<length cs.
              resp_refunds resp ! i =
                (case reply w (length (sent w) + i) of
                   None \<Rightarrow> RefundFailed (fxc_payer_account_id (cs ! i))
                 | Some ref_txn \<Rightarrow>
                     Refunded (fxc_payer_account_id (cs ! i)) (fxc_currency (cs ! i))
                       (amount_local (cs ! i)) ref_txn))"
  proof (intro exI conjI)
    show "trigger_fxpool_refund st w pid reason =
      (Inr ?resp, st\<lparr>fxpool_db := (fxpool_db st)(pid \<mapsto> ?pool)\<rparr>, dispatch_event ?event ?w1)"
      by (rule res)
    show "length (sent (dispatch_event ?event ?w1)) = length (sent w) + length cs"
      by (simp add: sent)
    show "take (length (sent w)) (sent (dispatch_event ?event ?w1)) = sent w"
      by (simp add: sent)
    show "map t_amount (drop (length (sent w)) (sent (dispatch_event ?event ?w1))) = map amount_local cs"
      by (simp add: sent refund_request_def comp_def)
    show "map t_payee_account_id (drop (length (sent w)) (sent (dispatch_event ?event ?w1)))
            = map fxc_payer_account_id cs"
      by (simp add: sent refund_request_def comp_def)
    show "map t_payer_account_id (drop (length (sent w)) (sent (dispatch_event ?event ?w1)))
            = map (\<lambda>c. fx_organizer_account_id pool0) cs"
      by (simp add: sent refund_request_def comp_def)
    show "length (resp_refunds ?resp) = length cs" by simp
    show "\<forall>i<length cs.
              resp_refunds ?resp ! i =
                (case reply w (length (sent w) + i) of
                   None \<Rightarrow> RefundFailed (fxc_payer_account_id (cs ! i))
                 | Some ref_txn \<Rightarrow>
                     Refunded (fxc_payer_account_id (cs ! i)) (fxc_currency (cs ! i))
                       (amount_local (cs ! i)) ref_txn)"
      using entries by simp
  qed
qed

theorem fxpool_refund_original_amounts_witness:
  "map t_amount (sent (snd (snd (trigger_fxpool_refund (demo_fx_stores collecting_fxpool) flaky_world
                                   ''fxpool_1'' ''rate_drift'')))) = [415000, 9000]
   \<and> map_sum id resp_refunds
        (fst (trigger_fxpool_refund (demo_fx_stores collecting_fxpool) flaky_world
                ''fxpool_1'' ''rate_drift''))
       = Inr [RefundFailed ''acc_in'', Refunded ''acc_de'' ''eur'' 9000 ''txn_r'']"
proof -
  let ?r = "trigger_fxpool_refund (demo_fx_stores collecting_fxpool) flaky_world ''fxpool_1'' ''rate_drift''"
  have h: "fxpool_db (demo_fx_stores collecting_fxpool) ''fxpool_1'' = Some (collecting_fxpool)
           \<and> fxpool_contributions_db (demo_fx_stores collecting_fxpool) ''fxpool_1''
               = Some demo_fx_contributions"
    by (simp add: demo_fx_stores_def)
  from fxpool_refund_original_amounts
         [of "demo_fx_stores collecting_fxpool" "''fxpool_1''" "collecting_fxpool"
             demo_fx_contributions flaky_world "''rate_drift''"] h
  obtain resp st1 w1 where r: "?r = (Inr resp, st1, w1)"
    and amounts: "map t_amount (drop (length (sent flaky_world)) (sent w1))
                    = map amount_local demo_fx_contributions"
    and len: "length (resp_refunds resp) = length demo_fx_contributions"
    and entries: "\<forall>i<length demo_fx_contributions.
              resp_refunds resp ! i =
                (case reply flaky_world (length (sent flaky_world) + i) of
                   None \<Rightarrow> RefundFailed (fxc_payer_account_id (demo_fx_contributions ! i))
                 | Some ref_txn \<Rightarrow>
                     Refunded (fxc_payer_account_id (demo_fx_contributions ! i))
                       (fxc_currency (demo_fx_contributions ! i))
                       (amount_local (demo_fx_contributions ! i)) ref_txn)"
    by blast
  from amounts have one: "map t_amount (sent w1) = [415000, 9000]"
    by (simp add: flaky_world_def demo_fx_contributions_def)
  from len have len2: "length (resp_refunds resp) = 2"
    by (simp add: demo_fx_contributions_def)
  from entries have e0: "resp_refunds resp ! 0 = RefundFailed ''acc_in''"
    and e1: "resp_refunds resp ! 1 = Refunded ''acc_de'' ''eur'' 9000 ''txn_r''"
    by (simp_all add: flaky_world_def demo_fx_contributions_def)
  from len2 e0 e1 have two: "resp_refunds resp = [RefundFailed ''acc_in'', Refunded ''acc_de'' ''eur'' 9000 ''txn_r'']"
    by (auto simp: list_eq_iff_nth_eq less_Suc_eq numeral_2_eq_2)
  from r one two show ?thesis by simp
qed

subsection \<open>FX Pool: cancel and force-drift on a pool that is not collecting\<close>

text \<open>
  Claim C8 at a funded pool and at a cancelled one. \<open>cancel_fxpool\<close> and
  \<open>simulate_rate_drift\<close> only look the pool up; the refund path then overwrites the
  status and sends the refunds whatever the status was. (1) On a \<open>funded\<close> pool with
  two contributions, \<open>cancel_fxpool\<close> leaves the status \<open>cancelled\<close> and sends two
  refund transfers. (2) On a collecting pool, \<open>cancel_fxpool\<close> leaves it \<open>cancelled\<close>
  with two refunds sent; \<open>simulate_rate_drift\<close> on the result leaves it
  \<open>drift_refunded\<close> and sends the two refunds again.
\<close>

theorem cancel_funded_fxpool_refunds:
  "(case cancel_fxpool (demo_fx_stores funded_fxpool) demo_world ''fxpool_1'' of
      (res, st1, w1) \<Rightarrow>
        isl res = False
        \<and> map_option fxpool_status (fxpool_db st1 ''fxpool_1'') = Some ''cancelled''
        \<and> map t_amount (sent w1) = [415000, 9000])
   \<and> (case cancel_fxpool (demo_fx_stores collecting_fxpool) demo_world ''fxpool_1'' of
        (res, st1, w1) \<Rightarrow>
          isl res = False
          \<and> map_option fxpool_status (fxpool_db st1 ''fxpool_1'') = Some ''cancelled''
          \<and> map t_amount (sent w1) = [415000, 9000]
          \<and> (case simulate_rate_drift st1 w1 ''fxpool_1'' of
               (res2, st2, w2) \<Rightarrow>
                 isl res2 = False
                 \<and> map_option fxpool_status (fxpool_db st2 ''fxpool_1'') = Some ''drift_refunded''
                 \<and> map t_amount (sent w2) = [415000, 9000, 415000, 9000]))"
  by (simp add: fx_eval)

subsection \<open>Idempotent replay\<close>

lemma dispatch_first_eq:
  assumes "http_method req = ''POST''" and "idempotency_key_header req = Some k" and "k \<noteq> []"
    and "store (k, url_path req) = None" and "call_next app req = (Inr resp, app1)"
  shows "dispatch call_next store app req =
           (if 200 \<le> r_status_code resp \<and> r_status_code resp < 300 then
              (Inr \<lparr>r_status_code = r_status_code resp, r_body_iterator = [body_bytes resp],
                    r_headers = r_headers resp ++
                       [''X-Idempotency-Key'' \<mapsto> k, ''X-Idempotency-Replayed'' \<mapsto> ''false'']\<rparr>,
               store((k, url_path req) \<mapsto>
                  \<lparr>cached_body = body_bytes resp, cached_status_code = r_status_code resp\<rparr>),
               app1)
            else (Inr resp, store, app1))"
  using assms by (simp add: dispatch_def body_bytes_def Let_def)

lemma dispatch_first:
  assumes m: "http_method req = ''POST''" and h: "idempotency_key_header req = Some k"
    and k: "k \<noteq> []" and s: "store (k, url_path req) = None"
    and c: "call_next app req = (Inr resp, app1)"
  shows "\<exists>out. dispatch call_next store app req =
            (Inr out,
             (if 200 \<le> r_status_code resp \<and> r_status_code resp < 300
              then store((k, url_path req) \<mapsto>
                     \<lparr>cached_body = body_bytes resp, cached_status_code = r_status_code resp\<rparr>)
              else store),
             app1)
          \<and> r_status_code out = r_status_code resp \<and> body_bytes out = body_bytes resp"
  unfolding dispatch_first_eq [where store=store and call_next=call_next and app=app, OF m h k s c]
  by (simp add: body_bytes_def)

lemma dispatch_raises:
  assumes "\<forall>k. idempotency_key_header req = Some k \<longrightarrow> store (k, url_path req) = None"
    and "call_next app req = (Inl e, app1)"
  shows "dispatch call_next store app req = (Inl e, store, app1)"
  using assms by (auto simp: dispatch_def Let_def split: option.splits)

lemma dispatch_replay:
  assumes "http_method req = ''POST''" and "idempotency_key_header req = Some k" and "k \<noteq> []"
    and "store (k, url_path req) = Some cached"
  shows "dispatch call_next store app req =
           (Inr \<lparr>r_status_code = cached_status_code cached,
                 r_body_iterator = [cached_body cached],
                 r_headers = [''Content-Type'' \<mapsto> ''application/json'',
                              ''X-Idempotency-Key'' \<mapsto> k,
                              ''X-Idempotency-Replayed'' \<mapsto> ''true'']\<rparr>,
            store, app)"
  using assms by (simp add: dispatch_def)

lemma dispatch_no_key:
  assumes "idempotency_key_header req = None \<or> idempotency_key_header req = Some []"
    and "call_next app req = (res, app1)"
  shows "dispatch call_next store app req = (res, store, app1)"
  using assms by (auto simp: dispatch_def)

lemma dispatch_repeat:
  fixes call_next :: "'app \<Rightarrow> request \<Rightarrow> ('e + response) \<times> 'app"
  assumes m: "http_method req = ''POST''" and h: "idempotency_key_header req = Some k" and k: "k \<noteq> []"
    and s: "store (k, url_path req) = None" and c: "call_next app req = (Inr resp, app1)"
    and ok: "200 \<le> r_status_code resp" "r_status_code resp < 300"
    and d: "dispatch call_next store app req = (Inr out1, store1, app1')"
  shows "app1' = app1
      \<and> (\<forall>call_next' :: 'app \<Rightarrow> request \<Rightarrow> ('e + response) \<times> 'app. \<exists>out2.
            dispatch call_next' store1 app1 req = (Inr out2, store1, app1)
            \<and> r_status_code out2 = r_status_code out1
            \<and> body_bytes out2 = body_bytes out1
            \<and> r_headers out2 ''X-Idempotency-Replayed'' = Some ''true'')"
proof -
  from dispatch_first_eq [where store=store and call_next=call_next and app=app, OF m h k s c] ok d
  have o: "out1 = \<lparr>r_status_code = r_status_code resp, r_body_iterator = [body_bytes resp],
                r_headers = r_headers resp ++
                   [''X-Idempotency-Key'' \<mapsto> k, ''X-Idempotency-Replayed'' \<mapsto> ''false'']\<rparr>"
    and s1: "store1 = store((k, url_path req) \<mapsto>
                  \<lparr>cached_body = body_bytes resp, cached_status_code = r_status_code resp\<rparr>)"
    and a1: "app1' = app1"
    by simp_all
  have c1: "store1 (k, url_path req) =
        Some \<lparr>cached_body = body_bytes resp, cached_status_code = r_status_code resp\<rparr>"
    by (simp add: s1)
  have "\<exists>out2.
            dispatch call_next' store1 app1 req = (Inr out2, store1, app1)
            \<and> r_status_code out2 = r_status_code out1
            \<and> body_bytes out2 = body_bytes out1
            \<and> r_headers out2 ''X-Idempotency-Replayed'' = Some ''true''"
    for call_next' :: "'app \<Rightarrow> request \<Rightarrow> ('e + response) \<times> 'app"
    unfolding dispatch_replay [where store=store1 and call_next=call_next' and app=app1, OF m h k c1] o
    by (simp add: body_bytes_def)
  with a1 show ?thesis by simp
qed

lemma dispatch_two_keys:
  assumes m: "http_method req = ''POST''" and h: "idempotency_key_header req = Some k" and k: "k \<noteq> []"
    and m': "http_method req' = ''POST''" and h': "idempotency_key_header req' = Some k'"
    and k': "k' \<noteq> []" and ne: "k \<noteq> k'"
    and s: "store (k, url_path req) = None" and s': "store (k', url_path req') = None"
    and d: "dispatch call_next store app req = (res1, store1, app1')"
  shows "app1' = snd (call_next app req)
      \<and> snd (snd (dispatch call_next store1 app1' req')) = snd (call_next app1' req')"
proof -
  obtain r0 app0 where c0: "call_next app req = (r0, app0)"
    by (cases "call_next app req")
  have a1: "app1' = app0"
    and s1: "store1 = store \<or> (\<exists>c. store1 = store((k, url_path req) \<mapsto> c))"
    using m h k s c0 d
    by (auto simp: dispatch_def Let_def split: sum.splits if_splits)
  from s1 s' ne have none: "store1 (k', url_path req') = None"
    by auto
  obtain r2 app2 where c2: "call_next app1' req' = (r2, app2)"
    by (cases "call_next app1' req'")
  have "snd (snd (dispatch call_next store1 app1' req')) = app2"
    using m' h' k' none c2
    by (auto simp: dispatch_def Let_def split: sum.splits if_splits)
  with a1 c0 c2 show ?thesis by simp
qed

text \<open>
  Claim C6, for a POST request \<open>req\<close> whose \<^verbatim>\<open>Idempotency-Key\<close> header is a
  non-empty \<open>k\<close>, and any handler \<open>call_next\<close>.
  (1) When the store holds nothing for \<open>(k, path)\<close>, the handler is executed (the
  application is left in the state the handler leaves), its status and body bytes are
  returned, and the pair is stored exactly when the status is 2xx.
  (2) When the store holds a response for \<open>(k, path)\<close>, that status and that body
  are returned with \<^verbatim>\<open>X-Idempotency-Replayed: true\<close>, and the handler is not
  executed: the application state and the store stay as they were.
  (3) So after a first call that succeeded, a repeat of the call returns the same
  status and the same body bytes, marked as a replay, without executing any handler.
  (4) A request with no key (or an empty one) executes the handler and leaves the
  store as it was.
  (5) Two calls with different keys, neither in the store, execute the handler twice.
  (6) When the handler is executed and raises, the exception is passed on and the
  store is left as it was.
\<close>

theorem idempotent_replay:
  fixes call_next :: "'app \<Rightarrow> request \<Rightarrow> ('e + response) \<times> 'app"
  shows
  "(http_method req = ''POST'' \<and> idempotency_key_header req = Some k \<and> k \<noteq> []
      \<and> store (k, url_path req) = None \<and> call_next app req = (Inr resp, app1) \<longrightarrow>
      (\<exists>out. dispatch call_next store app req =
            (Inr out,
             (if 200 \<le> r_status_code resp \<and> r_status_code resp < 300
              then store((k, url_path req) \<mapsto>
                     \<lparr>cached_body = body_bytes resp, cached_status_code = r_status_code resp\<rparr>)
              else store),
             app1)
          \<and> r_status_code out = r_status_code resp \<and> body_bytes out = body_bytes resp))
   \<and> (http_method req = ''POST'' \<and> idempotency_key_header req = Some k \<and> k \<noteq> []
      \<and> store (k, url_path req) = Some cached \<longrightarrow>
      dispatch call_next store app req =
           (Inr \<lparr>r_status_code = cached_status_code cached,
                 r_body_iterator = [cached_body cached],
                 r_headers = [''Content-Type'' \<mapsto> ''application/json'',
                              ''X-Idempotency-Key'' \<mapsto> k,
                              ''X-Idempotency-Replayed'' \<mapsto> ''true'']\<rparr>,
            store, app))
   \<and> (http_method req = ''POST'' \<and> idempotency_key_header req = Some k \<and> k \<noteq> []
      \<and> store (k, url_path req) = None \<and> call_next app req = (Inr resp, app1)
      \<and> 200 \<le> r_status_code resp \<and> r_status_code resp < 300
      \<and> dispatch call_next store app req = (Inr out1, store1, app1') \<longrightarrow>
      app1' = app1
      \<and> (\<forall>call_next' :: 'app \<Rightarrow> request \<Rightarrow> ('e + response) \<times> 'app. \<exists>out2.
            dispatch call_next' store1 app1 req = (Inr out2, store1, app1)
            \<and> r_status_code out2 = r_status_code out1
            \<and> body_bytes out2 = body_bytes out1
            \<and> r_headers out2 ''X-Idempotency-Replayed'' = Some ''true''))
   \<and> ((idempotency_key_header req = None \<or> idempotency_key_header req = Some [])
      \<and> call_next app req = (res, app1) \<longrightarrow>
      dispatch call_next store app req = (res, store, app1))
   \<and> (http_method req = ''POST'' \<and> idempotency_key_header req = Some k \<and> k \<noteq> []
      \<and> http_method req' = ''POST'' \<and> idempotency_key_header req' = Some k' \<and> k' \<noteq> []
      \<and> k \<noteq> k' \<and> store (k, url_path req) = None \<and> store (k', url_path req') = None
      \<and> dispatch call_next store app req = (res1, store1, app1') \<longrightarrow>
      app1' = snd (call_next app req)
      \<and> snd (snd (dispatch call_next store1 app1' req')) = snd (call_next app1' req'))
   \<and> ((\<forall>k. idempotency_key_header req = Some k \<longrightarrow> store (k, url_path req) = None)
      \<and> call_next app req = (Inl e, app1) \<longrightarrow>
      dispatch call_next store app req = (Inl e, store, app1))"
proof (intro conjI impI)
  assume "http_method req = ''POST'' \<and> idempotency_key_header req = Some k \<and> k \<noteq> []
      \<and> store (k, url_path req) = None \<and> call_next app req = (Inr resp, app1)"
  then show "\<exists>out. dispatch call_next store app req =
            (Inr out,
             (if 200 \<le> r_status_code resp \<and> r_status_code resp < 300
              then store((k, url_path req) \<mapsto>
                     \<lparr>cached_body = body_bytes resp, cached_status_code = r_status_code resp\<rparr>)
              else store),
             app1)
          \<and> r_status_code out = r_status_code resp \<and> body_bytes out = body_bytes resp"
    by (elim conjE) (rule dispatch_first)
next
  assume "http_method req = ''POST'' \<and> idempotency_key_header req = Some k \<and> k \<noteq> []
      \<and> store (k, url_path req) = Some cached"
  then show "dispatch call_next store app req =
           (Inr \<lparr>r_status_code = cached_status_code cached,
                 r_body_iterator = [cached_body cached],
                 r_headers = [''Content-Type'' \<mapsto> ''application/json'',
                              ''X-Idempotency-Key'' \<mapsto> k,
                              ''X-Idempotency-Replayed'' \<mapsto> ''true'']\<rparr>,
            store, app)"
    by (elim conjE) (rule dispatch_replay)
next
  assume a: "http_method req = ''POST'' \<and> idempotency_key_header req = Some k \<and> k \<noteq> []
      \<and> store (k, url_path req) = None \<and> call_next app req = (Inr resp, app1)
      \<and> 200 \<le> r_status_code resp \<and> r_status_code resp < 300
      \<and> dispatch call_next store app req = (Inr out1, store1, app1')"
  then have r: "app1' = app1
      \<and> (\<forall>call_next' :: 'app \<Rightarrow> request \<Rightarrow> ('e + response) \<times> 'app. \<exists>out2.
            dispatch call_next' store1 app1 req = (Inr out2, store1, app1)
            \<and> r_status_code out2 = r_status_code out1
            \<and> body_bytes out2 = body_bytes out1
            \<and> r_headers out2 ''X-Idempotency-Replayed'' = Some ''true'')"
    by (elim conjE) (rule dispatch_repeat)
  from r show "app1' = app1" by (rule conjunct1)
  from r show "\<forall>call_next' :: 'app \<Rightarrow> request \<Rightarrow> ('e + response) \<times> 'app. \<exists>out2.
            dispatch call_next' store1 app1 req = (Inr out2, store1, app1)
            \<and> r_status_code out2 = r_status_code out1
            \<and> body_bytes out2 = body_bytes out1
            \<and> r_headers out2 ''X-Idempotency-Replayed'' = Some ''true''"
    by (rule conjunct2)
next
  assume "(idempotency_key_header req = None \<or> idempotency_key_header req = Some [])
      \<and> call_next app req = (res, app1)"
  then show "dispatch call_next store app req = (res, store, app1)"
    by (elim conjE) (rule dispatch_no_key)
next
  assume a: "http_method req = ''POST'' \<and> idempotency_key_header req = Some k \<and> k \<noteq> []
      \<and> http_method req' = ''POST'' \<and> idempotency_key_header req' = Some k' \<and> k' \<noteq> []
      \<and> k \<noteq> k' \<and> store (k, url_path req) = None \<and> store (k', url_path req') = None
      \<and> dispatch call_next store app req = (res1, store1, app1')"
  then have r: "app1' = snd (call_next app req)
      \<and> snd (snd (dispatch call_next store1 app1' req')) = snd (call_next app1' req')"
    by (elim conjE) (rule dispatch_two_keys)
  from r show "app1' = snd (call_next app req)" by (rule conjunct1)
  from r show "snd (snd (dispatch call_next store1 app1' req')) = snd (call_next app1' req')"
    by (rule conjunct2)
next
  assume "(\<forall>k. idempotency_key_header req = Some k \<longrightarrow> store (k, url_path req) = None)
      \<and> call_next app req = (Inl e, app1)"
  then show "dispatch call_next store app req = (Inl e, store, app1)"
    by (elim conjE) (rule dispatch_raises)
qed

theorem idempotent_replay_witness:
  "(case dispatch create_resource Map.empty 0 (demo_post (Some ''key-A'')) of
      (res1, store1, app1) \<Rightarrow>
        app1 = 1 \<and> map_sum id r_status_code res1 = Inr 201
        \<and> map_sum id body_bytes res1 = Inr ''id=res_''
        \<and> (case dispatch create_resource store1 app1 (demo_post (Some ''key-A'')) of
             (res2, store2, app2) \<Rightarrow>
               app2 = 1 \<and> map_sum id r_status_code res2 = Inr 201
               \<and> map_sum id body_bytes res2 = Inr ''id=res_''
               \<and> map_sum id (\<lambda>r. r_headers r ''X-Idempotency-Replayed'') res2 = Inr (Some ''true''))
        \<and> (case dispatch create_resource store1 app1 (demo_post (Some ''key-B'')) of
             (res3, store3, app3) \<Rightarrow>
               app3 = 2 \<and> map_sum id r_status_code res3 = Inr 201
               \<and> map_sum id body_bytes res3 = Inr ''id=res_i'')
        \<and> (case dispatch create_resource store1 app1 (demo_post None) of
             (res4, store4, app4) \<Rightarrow> app4 = 2 \<and> store4 = store1))"
  using idempotent_replay
          [of "demo_post (Some ''key-A'')" "''key-A''" Map.empty create_resource 0
              "projr (fst (create_resource 0 (demo_post (Some ''key-A''))))" 1]
  by (simp add: dispatch_def create_resource_def demo_post_def body_bytes_def Let_def)

subsection \<open>The rate lock: the source amount is truncated\<close>






end
